theory Spec2Isabelle
  imports Main "HOL-Library.Word"
begin

section \<open>JavaScript values and abrupt completion\<close>

text \<open>
  The two source files are JavaScript. Values whose type the source leaves open are
  JavaScript primitives; a statement either completes normally or throws. Closure's
  private names end in an underscore (\<^verbatim>\<open>tmpQuat_\<close>, \<^verbatim>\<open>inGame_\<close>, \<^verbatim>\<open>beginSetup_\<close>);
  the definitions here carry the same names without it.
\<close>

datatype jsval = JUndefined | JNull | JBool bool | JNum int | JStr string

text \<open>ToBoolean, as used by \<^verbatim>\<open>if (x)\<close> and \<^verbatim>\<open>x || y\<close>.\<close>

fun truthy :: "jsval \<Rightarrow> bool" where
  "truthy JUndefined = False"
| "truthy JNull = False"
| "truthy (JBool b) = b"
| "truthy (JNum n) = (n \<noteq> 0)"
| "truthy (JStr s) = (s \<noteq> [])"

text \<open>\<^verbatim>\<open>opt_arg || null\<close>\<close>

definition or_null :: "jsval \<Rightarrow> jsval" where
  "or_null v = (if truthy v then v else JNull)"

text \<open>
  The loose comparison \<^verbatim>\<open>x != ''\<close>: a string differs from the empty string when it
  has a character; a number and a boolean are compared with \<open>ToNumber('') = 0\<close>;
  \<^verbatim>\<open>null\<close> and \<^verbatim>\<open>undefined\<close> are loosely equal only to each other.
\<close>

fun neq_empty :: "jsval \<Rightarrow> bool" where
  "neq_empty (JStr s) = (s \<noteq> [])"
| "neq_empty (JNum n) = (n \<noteq> 0)"
| "neq_empty (JBool b) = b"
| "neq_empty JNull = True"
| "neq_empty JUndefined = True"

text \<open>
  The loose comparison \<^verbatim>\<open>x == 'save'\<close>: \<open>ToNumber('save')\<close> is NaN, so only the
  string itself is equal.
\<close>

fun eq_save :: "jsval \<Rightarrow> bool" where
  "eq_save (JStr s) = (s = ''save'')"
| "eq_save v = False"

datatype js_error = ReferenceError string | AssertionError

datatype completion = Normal | Throw js_error

section \<open>blk.sim.controllers.FpsController\<close>

subsection \<open>Commands, entities and the controller\<close>

text \<open>
  A quaternion is a \<^verbatim>\<open>goog.vec.Quaternion.Float32\<close>: four 32-bit floats. The controller
  only copies them, so each component is kept as its bit pattern.
\<close>

type_synonym float32 = "32 word"

type_synonym quaternion = "float32 \<times> float32 \<times> float32 \<times> float32"

type_synonym action = nat

text \<open>
  \<^verbatim>\<open>command instanceof blk.sim.commands.PlayerMoveCommand\<close> is the constructor test.
  A move command carries its view rotation and \<^verbatim>\<open>command.actions\<close>: \<open>None\<close> is an
  absent (null or undefined) value, \<open>Some as\<close> the ordered list of the data model, which
  is an object and therefore truthy whatever its length.
\<close>

datatype command =
    PlayerMoveCommand quaternion "action list option"
  | OtherCommand nat

type_synonym tool = nat

record entity =
  rotation :: quaternion
  position :: "float32 \<times> float32 \<times> float32"
  heldTool :: "tool option"

text \<open>
  The simulation as far as \<^verbatim>\<open>executeCommand\<close> touches it: the static scratch quaternion
  \<^verbatim>\<open>FpsController.tmpQuat_\<close>, which outlives every call, the controller's bound target,
  and the log of the \<^verbatim>\<open>use\<close> invocations the tools have received.
\<close>

record sim =
  tmpQuat :: quaternion
  target :: "entity option"
  useLog :: "(tool \<times> command) list"

text \<open>
  Modelled from the spec: \<^verbatim>\<open>blk.sim.Controller.prototype.executeCommand\<close>, the superclass
  method called through \<^verbatim>\<open>goog.base\<close>, is not among the source files. The execution
  algorithm of the spec has no step before the target is resolved, so it changes nothing.
\<close>

definition Controller_executeCommand :: "command \<Rightarrow> sim \<Rightarrow> sim" where
  "Controller_executeCommand command s = s"

text \<open>
  Modelled from the spec: \<^verbatim>\<open>getTarget\<close> of blk.sim.Controller (not among the source
  files) resolves the bound target, a nullable reference.
\<close>

definition getTarget :: "sim \<Rightarrow> entity option" where
  "getTarget s = target s"

text \<open>
  Modelled from the spec: \<^verbatim>\<open>command.getQuaternion(q)\<close> of PlayerMoveCommand (not among
  the source files) writes the command's orientation into the quaternion passed in,
  overwriting all four components.
\<close>

fun getQuaternion :: "command \<Rightarrow> quaternion \<Rightarrow> quaternion" where
  "getQuaternion (PlayerMoveCommand r as) q = r"
| "getQuaternion (OtherCommand k) q = q"

text \<open>
  Modelled from the spec: \<^verbatim>\<open>setRotation\<close> of gf.sim.SpatialEntityState (not among the
  source files) replaces the orientation by the value given (a copy of the components).
\<close>

definition setRotation :: "quaternion \<Rightarrow> entity \<Rightarrow> entity" where
  "setRotation q e = e\<lparr>rotation := q\<rparr>"

text \<open>
  Modelled from the spec: \<^verbatim>\<open>getHeldTool\<close> of the target entity (not among the source
  files) gives the currently held tool, a nullable reference.
\<close>

definition getHeldTool :: "entity \<Rightarrow> tool option" where
  "getHeldTool e = heldTool e"

text \<open>
  Modelled from the spec: the tool's use-operation (blk.sim.Tool, not among the source
  files) receives the command as context. What a tool does with it is outside the
  contract; the invocation is recorded.
\<close>

definition use :: "tool \<Rightarrow> command \<Rightarrow> sim \<Rightarrow> sim" where
  "use t command s = s\<lparr>useLog := useLog s @ [(t, command)]\<rparr>"

subsection \<open>executeCommand\<close>

text \<open>
  fpscontroller.js, lines 63 to 92. Every dereference of the source is guarded by the
  test before it, and the source has no \<^verbatim>\<open>throw\<close>; the result type still has room for
  an error, so that "never raises" is a statement about the function.
\<close>

definition executeCommand :: "command \<Rightarrow> sim \<Rightarrow> js_error + sim" where
  "executeCommand command s0 =
    (let s = Controller_executeCommand command s0 in
     case getTarget s of
       None \<Rightarrow> Inr s
     | Some tgt \<Rightarrow>
        (case command of
           OtherCommand k \<Rightarrow> Inr s
         | PlayerMoveCommand r acts \<Rightarrow>
            (let q = getQuaternion command (tmpQuat s);
                 s1 = s\<lparr>tmpQuat := q\<rparr>;
                 s2 = s1\<lparr>target := Some (setRotation q tgt)\<rparr>
             in case acts of
                  None \<Rightarrow> Inr s2
                | Some as \<Rightarrow>
                   (case getHeldTool tgt of
                      None \<Rightarrow> Inr s2
                    | Some t \<Rightarrow> Inr (use t command s2)))))"

text \<open>A sequence of commands, executed in order; a throw would end the sequence.\<close>

fun executeCommands :: "command list \<Rightarrow> sim \<Rightarrow> js_error + sim" where
  "executeCommands [] s = Inr s"
| "executeCommands (c # cs) s =
     (case executeCommand c s of Inl e \<Rightarrow> Inl e | Inr s' \<Rightarrow> executeCommands cs s')"

text \<open>The entity state: everything of the simulation but the static scratch quaternion.\<close>

definition entityState :: "sim \<Rightarrow> entity option \<times> (tool \<times> command) list" where
  "entityState s = (target s, useLog s)"

text \<open>The \<^verbatim>\<open>use\<close> invocations a call adds to the log.\<close>

definition invocations :: "sim \<Rightarrow> js_error + sim \<Rightarrow> (tool \<times> command) list" where
  "invocations s r = (case r of Inl e \<Rightarrow> [] | Inr s' \<Rightarrow> drop (length (useLog s)) (useLog s'))"

section \<open>blk.game.client.ClientGame\<close>

subsection \<open>Collaborators\<close>

record user_settings =
  userName :: string
  mouseSensitivity :: int
  mouseLock :: bool
  musicMuted :: bool
  soundFxMuted :: bool

type_synonym session = nat

datatype screen = SplashScreen | MainMenuScreen | SettingsScreen | HelpScreen | GameScreen session

text \<open>
  What a \<^verbatim>\<open>goog.async.Deferred\<close> has fired with: a value, an error, or nothing (yet, or
  ever). A callback added to a deferred runs when both the callback is there and the
  deferred has fired; one added to a deferred that never fires never runs. A method's
  trace is the method's own calls followed by those of the callbacks it adds; what other
  handlers do between a deferred's creation and its firing is not part of it.
\<close>

datatype 'a outcome = Succeeded 'a | Failed jsval | Pending

definition hasFired :: "'a outcome \<Rightarrow> bool" where
  "hasFired d = (case d of Pending \<Rightarrow> False | Succeeded v \<Rightarrow> True | Failed a \<Rightarrow> True)"

text \<open>
  \<^verbatim>\<open>goog.Uri\<close> is a library class, not among the source files: the parse of an address
  is taken as given, as the results of the three getters the source calls and of
  \<^verbatim>\<open>toString\<close>. The scheme and the domain are used as strings (the scheme is switched on
  against string literals and concatenated into a message); the port is only compared
  loosely with the empty string, so it is any JavaScript value.
\<close>

record uri =
  getScheme :: string
  getDomain :: string
  getPort :: jsval
  toString :: string

datatype auth_token = AuthToken

record user_info =
  displayName :: string

text \<open>
  The calls the game makes on its collaborators (screen manager, status screens, graphics
  context, render state, input, music, sound bank, log, network, the connect deferred),
  in the order they are made. \<open>ConnectToRemoteHost\<close> and \<open>ConnectToLocalHost\<close> mark the
  entry of the two private connector methods, the second of which has an empty body.
\<close>

datatype event =
    SetScreen screen
  | PushScreen screen
  | PopAllScreens
  | GraphicsSetup bool bool
  | RenderStateSetup
  | StartTicking
  | ShowError string string jsval
  | ShowConnecting string
  | DialogCancel
  | ShowConnectionFailed jsval
  | Errback jsval
  | ConnectToRemoteHost string
  | ConnectToLocalHost string
  | NetConnect string auth_token user_info
  | LogWrite string "jsval option"
  | PlayAmbient string
  | ToggleFullScreen
  | MouseSetSensitivity int
  | MouseSetLockOnFocus bool
  | MouseLock
  | MouseUnlock
  | InputSetEnabled bool
  | MusicSetMuted bool

text \<open>
  What surrounds a game instance: the global scope, in which a free identifier of a
  method is looked up (\<open>None\<close>: the identifier is not declared, and evaluating it throws a
  ReferenceError), the library functions, and what the collaborators' deferreds fire with.
\<close>

record env =
  global_settings :: "user_settings option"
  global_buttonId :: "jsval option"
  goog_Uri :: "string \<Rightarrow> uri"
  sanitizeDisplayName :: "string \<Rightarrow> string"
  supportsLocking :: bool
  graphicsContext_setup :: "unit outcome"
  renderState_setup :: "unit outcome"
  gf_net_connect :: "string \<Rightarrow> auth_token \<Rightarrow> user_info \<Rightarrow> session outcome"
  settingsScreen_deferred :: "jsval outcome"
  helpScreen_deferred :: "jsval outcome"

subsection \<open>The game instance\<close>

record client_game =
  settings :: user_settings
  launchOptions_host :: "string option"
  inGame :: bool
  isFullScreen :: bool
  trace :: "event list"

definition emit :: "event \<Rightarrow> client_game \<Rightarrow> client_game" where
  "emit e g = g\<lparr>trace := trace g @ [e]\<rparr>"

text \<open>Sequencing of statements that may throw: a throw skips the rest.\<close>

definition andThen ::
  "completion \<times> client_game \<Rightarrow> (client_game \<Rightarrow> completion \<times> client_game)
    \<Rightarrow> completion \<times> client_game" where
  "andThen r f = (case r of (Normal, g) \<Rightarrow> f g | (Throw e, g) \<Rightarrow> (Throw e, g))"

text \<open>clientgame.js, lines 237 to 239.\<close>

definition isInGame :: "client_game \<Rightarrow> bool" where
  "isInGame g = inGame g"

text \<open>clientgame.js, lines 246 to 266.\<close>

definition refreshSettings :: "client_game \<Rightarrow> client_game" where
  "refreshSettings g =
    (let g1 = emit (MouseSetSensitivity (mouseSensitivity (settings g))) g;
         g2 = emit (MouseSetLockOnFocus (mouseLock (settings g1))) g1;
         g3 = (if inGame g2 \<and> mouseLock (settings g2) then emit MouseLock g2
               else emit MouseUnlock g2)
     in emit (MusicSetMuted (musicMuted (settings g3))) g3)"

text \<open>clientgame.js, lines 367 to 371.\<close>

definition playClick :: "client_game \<Rightarrow> client_game" where
  "playClick g = (if \<not> soundFxMuted (settings g) then emit (PlayAmbient ''click'') g else g)"

text \<open>
  clientgame.js, lines 378 to 392. \<^verbatim>\<open>display_.toggleFullScreen()\<close> is the display's own
  method; it is recorded, and the display's flag is taken to flip.
\<close>

definition toggleFullscreen :: "env \<Rightarrow> client_game \<Rightarrow> client_game" where
  "toggleFullscreen env g =
    (let g1 = playClick g;
         goingFullScreen = (\<not> isFullScreen g1);
         g2 = emit ToggleFullScreen (g1\<lparr>isFullScreen := \<not> isFullScreen g1\<rparr>)
     in if inGame g2 \<and> goingFullScreen \<and> supportsLocking env \<and> mouseLock (settings g2)
        then emit MouseLock g2 else g2)"

text \<open>
  clientgame.js, lines 728 to 741. \<^verbatim>\<open>goog.asserts.assert\<close> throws when its argument is
  false (assertions enabled, as in the uncompiled source).
\<close>

definition enterGame :: "client_game \<Rightarrow> completion \<times> client_game" where
  "enterGame g = (if \<not> isInGame g then (Normal, g\<lparr>inGame := True\<rparr>) else (Throw AssertionError, g))"

definition exitGame :: "client_game \<Rightarrow> completion \<times> client_game" where
  "exitGame g = (if isInGame g then (Normal, g\<lparr>inGame := False\<rparr>) else (Throw AssertionError, g))"

text \<open>clientgame.js, lines 398 to 406.\<close>

definition gotoMainMenuScreen :: "client_game \<Rightarrow> completion \<times> client_game" where
  "gotoMainMenuScreen g =
    andThen (if isInGame g then exitGame g else (Normal, g))
      (\<lambda>g1. (Normal, emit (SetScreen MainMenuScreen) g1))"

text \<open>clientgame.js, lines 716 to 721.\<close>

definition gotoGameScreen :: "session \<Rightarrow> client_game \<Rightarrow> completion \<times> client_game" where
  "gotoGameScreen sess g =
    andThen (enterGame g) (\<lambda>g1. (Normal, emit (SetScreen (GameScreen sess)) g1))"

text \<open>clientgame.js, lines 449 to 470.\<close>

definition prePopup :: "client_game \<Rightarrow> client_game" where
  "prePopup g =
    (let g1 = playClick g in if isInGame g1 then emit (InputSetEnabled False) g1 else g1)"

definition postPopup :: "client_game \<Rightarrow> client_game" where
  "postPopup g =
    (let g1 = playClick g in if isInGame g1 then emit (InputSetEnabled True) g1 else g1)"

text \<open>
  clientgame.js, lines 476 to 491. The callback is added with \<^verbatim>\<open>addCallback\<close>, so it runs
  only when the dialog's deferred fires with a value. Its parameter is \<^verbatim>\<open>buttonid\<close>; the
  condition reads \<^verbatim>\<open>buttonId\<close>, a free identifier, looked up in the global scope.
\<close>

definition showSettingsPopup :: "env \<Rightarrow> client_game \<Rightarrow> completion \<times> client_game" where
  "showSettingsPopup env g =
    (let g1 = prePopup g;
         g2 = emit (PushScreen SettingsScreen) g1
     in case settingsScreen_deferred env of
          Succeeded buttonid \<Rightarrow>
            (case global_buttonId env of
               None \<Rightarrow> (Throw (ReferenceError ''buttonId''), g2)
             | Some buttonId \<Rightarrow>
                 (Normal, postPopup (if eq_save buttonId then refreshSettings g2 else g2)))
        | Failed a \<Rightarrow> (Normal, g2)
        | Pending \<Rightarrow> (Normal, g2))"

text \<open>clientgame.js, lines 497 to 508: \<^verbatim>\<open>addBoth\<close>, so the callback runs on either firing.\<close>

definition showHelpPopup :: "env \<Rightarrow> client_game \<Rightarrow> client_game" where
  "showHelpPopup env g =
    (let g1 = prePopup g;
         g2 = emit (PushScreen HelpScreen) g1
     in if hasFired (helpScreen_deferred env) then postPopup g2 else g2)"

text \<open>clientgame.js, lines 517 to 522.\<close>

definition showErrorPopup :: "string \<Rightarrow> string \<Rightarrow> jsval \<Rightarrow> client_game \<Rightarrow> client_game" where
  "showErrorPopup location message opt_arg g = emit (ShowError location message (or_null opt_arg)) g"

text \<open>clientgame.js, lines 337 to 345.\<close>

definition setupFailed :: "string \<Rightarrow> jsval \<Rightarrow> client_game \<Rightarrow> client_game" where
  "setupFailed message arg g = showErrorPopup ''setup'' message arg (emit PopAllScreens g)"

subsection \<open>connectToHost\<close>

text \<open>The two error messages of connectToHost, under the names of the error taxonomy.\<close>

definition InvalidAddress :: "string \<Rightarrow> jsval" where
  "InvalidAddress address =
     JStr (''Invalid address format: '' @ [CHR 0x22] @ address @ [CHR 0x22])"

definition UnsupportedScheme :: "string \<Rightarrow> jsval" where
  "UnsupportedScheme sch = JStr (''Unsupported scheme '' @ [CHR 0x22] @ sch @ [CHR 0x22])"

text \<open>
  \<^verbatim>\<open>deferred.errback(x)\<close> on the connect deferred, which the source only calls while the
  deferred has not fired.
\<close>

definition errback :: "jsval \<Rightarrow> client_game \<Rightarrow> session outcome \<times> client_game" where
  "errback x g = (Failed x, emit (Errback x) g)"

text \<open>
  clientgame.js, lines 698 to 708: \<^verbatim>\<open>chainDeferred\<close> fires the connect deferred with
  whatever \<^verbatim>\<open>gf.net.connect\<close> fires with.
\<close>

definition connectToRemoteHost ::
  "env \<Rightarrow> uri \<Rightarrow> auth_token \<Rightarrow> user_info \<Rightarrow> client_game \<Rightarrow> session outcome \<times> client_game" where
  "connectToRemoteHost env u authToken userInfo g =
    (let g1 = emit (ConnectToRemoteHost (toString u)) g;
         endpoint = toString u;
         connectDeferred = gf_net_connect env endpoint authToken userInfo
     in (connectDeferred, emit (NetConnect endpoint authToken userInfo) g1))"

text \<open>
  clientgame.js, lines 613 to 686: every statement of the body is commented out, so the
  deferred passed in is never fired.
\<close>

definition connectToLocalHost ::
  "env \<Rightarrow> uri \<Rightarrow> auth_token \<Rightarrow> user_info \<Rightarrow> client_game \<Rightarrow> session outcome \<times> client_game" where
  "connectToLocalHost env u authToken userInfo g =
    (Pending, emit (ConnectToLocalHost (toString u)) g)"

text \<open>
  clientgame.js, lines 529 to 591. Line 552 reads \<^verbatim>\<open>settings.userName\<close>: \<^verbatim>\<open>settings\<close> is
  neither a parameter nor a local of the method, so it is looked up in the global scope,
  on every path, after the validation and before the dispatch. The two callbacks of
  lines 571 to 590 are the last two cases.
\<close>

definition connectToHost :: "env \<Rightarrow> string \<Rightarrow> client_game \<Rightarrow> completion \<times> client_game" where
  "connectToHost env address g0 =
    (let g1 = emit (ShowConnecting address) g0;
         u = goog_Uri env address;
         validAddress = (getScheme u \<noteq> [] \<and> getDomain u \<noteq> [] \<and> neq_empty (getPort u));
         validated = (if \<not> validAddress then errback (InvalidAddress address) g1
                      else (Pending, g1))
     in case global_settings env of
          None \<Rightarrow> (Throw (ReferenceError ''settings''), snd validated)
        | Some st \<Rightarrow>
           (let authToken = AuthToken;
                userInfo = \<lparr>displayName = sanitizeDisplayName env (userName st)\<rparr>;
                attempted =
                  (if \<not> hasFired (fst validated) then
                     (if getScheme u = ''ws'' then
                        connectToRemoteHost env u authToken userInfo (snd validated)
                      else if getScheme u = ''local'' then
                        connectToLocalHost env u authToken userInfo (snd validated)
                      else errback (UnsupportedScheme (getScheme u)) (snd validated))
                   else validated)
            in case fst attempted of
                 Succeeded sess \<Rightarrow>
                   gotoGameScreen sess
                     (emit DialogCancel
                       (emit (LogWrite (''Connection established to '' @ address) None)
                         (snd attempted)))
               | Failed arg \<Rightarrow>
                   (Normal,
                    emit (ShowConnectionFailed arg)
                      (emit DialogCancel
                        (emit (LogWrite (''Error connecting to '' @ address) (Some arg))
                          (snd attempted))))
               | Pending \<Rightarrow> (Normal, snd attempted)))"

subsection \<open>Setup\<close>

text \<open>clientgame.js, lines 312 to 328. An empty host string is falsy.\<close>

definition setupSucceeded :: "env \<Rightarrow> client_game \<Rightarrow> completion \<times> client_game" where
  "setupSucceeded env g =
    (let g1 = emit PopAllScreens g;
         g2 = emit StartTicking g1
     in case launchOptions_host g2 of
          None \<Rightarrow> gotoMainMenuScreen g2
        | Some h \<Rightarrow> (if h \<noteq> [] then connectToHost env h g2 else gotoMainMenuScreen g2))"

text \<open>
  clientgame.js, lines 276 to 305. The call of \<^verbatim>\<open>renderState_.setup()\<close> stands inside the
  success callback of \<^verbatim>\<open>graphicsContext_.setup(attributes)\<close>. The deferred the method
  returns is never fired and no caller reads it.
\<close>

definition beginSetup :: "env \<Rightarrow> client_game \<Rightarrow> completion \<times> client_game" where
  "beginSetup env g =
    (let g1 = emit (SetScreen SplashScreen) g;
         g2 = emit (GraphicsSetup False False) g1
     in case graphicsContext_setup env of
          Succeeded v \<Rightarrow>
            (let g3 = emit RenderStateSetup g2
             in case renderState_setup env of
                  Succeeded w \<Rightarrow> setupSucceeded env g3
                | Failed arg \<Rightarrow> (Normal, setupFailed ''Unable to setup graphics resources'' arg g3)
                | Pending \<Rightarrow> (Normal, g3))
        | Failed arg \<Rightarrow> (Normal, setupFailed ''Unable to create the graphics context'' arg g2)
        | Pending \<Rightarrow> (Normal, g2))"

text \<open>
  clientgame.js, lines 56 to 158: the constructor stores the launch options and the
  settings, builds the collaborators, clears the in-game flag and begins the setup. A
  launch is one call of it.
\<close>

definition ClientGame ::
  "env \<Rightarrow> string option \<Rightarrow> user_settings \<Rightarrow> completion \<times> client_game" where
  "ClientGame env host st =
    beginSetup env
      \<lparr>settings = st, launchOptions_host = host, inGame = False, isFullScreen = False,
       trace = []\<rparr>"

subsection \<open>Observing a call\<close>

text \<open>The calls on the collaborators that a method adds to the trace.\<close>

definition newEvents :: "client_game \<Rightarrow> completion \<times> client_game \<Rightarrow> event list" where
  "newEvents g r = drop (length (trace g)) (trace (snd r))"

text \<open>The events of a connector: the entry of either connector method, and the network call.\<close>

fun isConnectorCall :: "event \<Rightarrow> bool" where
  "isConnectorCall (ConnectToRemoteHost u) = True"
| "isConnectorCall (ConnectToLocalHost u) = True"
| "isConnectorCall (NetConnect e a u) = True"
| "isConnectorCall e = False"

subsection \<open>A concrete environment\<close>

text \<open>
  A page as the two source files leave it: nothing declares a global \<^verbatim>\<open>settings\<close> or
  \<^verbatim>\<open>buttonId\<close>. The parse of six addresses stands for \<^verbatim>\<open>goog.Uri\<close>, whose
  \<^verbatim>\<open>getPort\<close> gives \<^verbatim>\<open>null\<close> for an address that names no port; the network would
  accept the connection, and the settings dialog is closed with 'save'.
\<close>

definition exampleUri :: "string \<Rightarrow> uri" where
  "exampleUri a =
    (if a = ''ws://host.example:80'' then
       \<lparr>getScheme = ''ws'', getDomain = ''host.example'', getPort = JNum 80, toString = a\<rparr>
     else if a = ''local://blk:1'' then
       \<lparr>getScheme = ''local'', getDomain = ''blk'', getPort = JNum 1, toString = a\<rparr>
     else if a = ''ftp://host.example:21'' then
       \<lparr>getScheme = ''ftp'', getDomain = ''host.example'', getPort = JNum 21, toString = a\<rparr>
     else if a = ''ws://'' then
       \<lparr>getScheme = ''ws'', getDomain = [], getPort = JNull, toString = a\<rparr>
     else if a = ''ws://host.example'' then
       \<lparr>getScheme = ''ws'', getDomain = ''host.example'', getPort = JNull, toString = a\<rparr>
     else \<lparr>getScheme = [], getDomain = [], getPort = JNull, toString = a\<rparr>)"

definition exampleSettings :: user_settings where
  "exampleSettings =
    \<lparr>userName = ''player'', mouseSensitivity = 1, mouseLock = True, musicMuted = False,
     soundFxMuted = False\<rparr>"

definition exampleEnv :: env where
  "exampleEnv =
    \<lparr>global_settings = None, global_buttonId = None, goog_Uri = exampleUri,
     sanitizeDisplayName = (\<lambda>n. n), supportsLocking = True,
     graphicsContext_setup = Succeeded (), renderState_setup = Succeeded (),
     gf_net_connect = (\<lambda>e a u. Succeeded 1),
     settingsScreen_deferred = Succeeded (JStr ''save''), helpScreen_deferred = Pending\<rparr>"

definition exampleGame :: client_game where
  "exampleGame =
    \<lparr>settings = exampleSettings, launchOptions_host = None, inGame = False,
     isFullScreen = False, trace = []\<rparr>"

section \<open>Properties of executeCommand\<close>

lemma executeCommand_total: "\<exists>s'. executeCommand command s = Inr s'"
  by (simp add: executeCommand_def Let_def split: option.splits command.splits)

text \<open>
  The scratch quaternion is written before it is read: two calls that differ only in its
  initial content return states that differ at most in its final content.
\<close>

lemma executeCommand_scratch:
  "\<exists>s' qa qb. executeCommand c (s\<lparr>tmpQuat := q1\<rparr>) = Inr (s'\<lparr>tmpQuat := qa\<rparr>)
      \<and> executeCommand c (s\<lparr>tmpQuat := q2\<rparr>) = Inr (s'\<lparr>tmpQuat := qb\<rparr>)"
proof (cases "target s")
  case None
  then have "executeCommand c (s\<lparr>tmpQuat := q1\<rparr>) = Inr (s\<lparr>tmpQuat := q1\<rparr>)"
    and "executeCommand c (s\<lparr>tmpQuat := q2\<rparr>) = Inr (s\<lparr>tmpQuat := q2\<rparr>)"
    by (simp_all add: executeCommand_def Controller_executeCommand_def getTarget_def)
  then show ?thesis by blast
next
  case (Some e)
  show ?thesis
  proof (cases c)
    case (OtherCommand k)
    with Some have "executeCommand c (s\<lparr>tmpQuat := q1\<rparr>) = Inr (s\<lparr>tmpQuat := q1\<rparr>)"
      and "executeCommand c (s\<lparr>tmpQuat := q2\<rparr>) = Inr (s\<lparr>tmpQuat := q2\<rparr>)"
      by (simp_all add: executeCommand_def Controller_executeCommand_def getTarget_def)
    then show ?thesis by blast
  next
    case (PlayerMoveCommand r acts)
    define s' where "s' =
      (case acts of
         None \<Rightarrow> s\<lparr>target := Some (setRotation r e)\<rparr>
       | Some as \<Rightarrow>
          (case heldTool e of
             None \<Rightarrow> s\<lparr>target := Some (setRotation r e)\<rparr>
           | Some t \<Rightarrow> use t c (s\<lparr>target := Some (setRotation r e)\<rparr>)))"
    have "executeCommand c (s\<lparr>tmpQuat := q\<rparr>) = Inr (s'\<lparr>tmpQuat := r\<rparr>)" for q
      using Some PlayerMoveCommand
      by (simp add: executeCommand_def Controller_executeCommand_def getTarget_def
          getHeldTool_def use_def s'_def Let_def split: option.splits)
    then show ?thesis by blast
  qed
qed

text \<open>
  C2, as stated: with a bound target that holds a tool, the tool's use-operation is
  invoked once per action of the command's list, so N actions give N invocations and an
  empty list gives none. The source calls \<^verbatim>\<open>heldTool.use(command)\<close> once, under
  \<^verbatim>\<open>if (command.actions)\<close>, and has no loop over the actions: a list of two actions
  gives one invocation, and so does the empty list, which is truthy.
\<close>

theorem executeCommand_once_per_action_counterexample:
  "length (invocations
      \<lparr>tmpQuat = (0, 0, 0, 0),
       target = Some \<lparr>rotation = (0, 0, 0, 1), position = (0, 0, 0), heldTool = Some 5\<rparr>,
       useLog = []\<rparr>
      (executeCommand (PlayerMoveCommand (1, 2, 3, 4) (Some [7, 8]))
        \<lparr>tmpQuat = (0, 0, 0, 0),
         target = Some \<lparr>rotation = (0, 0, 0, 1), position = (0, 0, 0), heldTool = Some 5\<rparr>,
         useLog = []\<rparr>))
     \<noteq> length [7, 8 :: action]
   \<and> invocations
      \<lparr>tmpQuat = (0, 0, 0, 0),
       target = Some \<lparr>rotation = (0, 0, 0, 1), position = (0, 0, 0), heldTool = Some 5\<rparr>,
       useLog = []\<rparr>
      (executeCommand (PlayerMoveCommand (1, 2, 3, 4) (Some []))
        \<lparr>tmpQuat = (0, 0, 0, 0),
         target = Some \<lparr>rotation = (0, 0, 0, 1), position = (0, 0, 0), heldTool = Some 5\<rparr>,
         useLog = []\<rparr>)
     \<noteq> []"
  by (simp add: invocations_def executeCommand_def Controller_executeCommand_def getTarget_def
      getHeldTool_def use_def Let_def)

text \<open>
  C2, amended: for every move command whose actions value is a list (of any length), run
  by a controller whose bound target holds a tool, the tool's use-operation is invoked
  exactly once, with the command as its argument.
\<close>

theorem executeCommand_use_once:
  assumes "target s = Some e" and "heldTool e = Some t"
  shows "invocations s (executeCommand (PlayerMoveCommand q (Some as)) s)
           = [(t, PlayerMoveCommand q (Some as))]"
  using assms
  by (simp add: invocations_def executeCommand_def Controller_executeCommand_def getTarget_def
      getHeldTool_def use_def Let_def)

theorem executeCommand_use_once_witness:
  "invocations
      \<lparr>tmpQuat = (0, 0, 0, 0),
       target = Some \<lparr>rotation = (0, 0, 0, 1), position = (0, 0, 0), heldTool = Some 5\<rparr>,
       useLog = [(5, OtherCommand 0)]\<rparr>
      (executeCommand (PlayerMoveCommand (1, 2, 3, 4) (Some [7, 8, 9]))
        \<lparr>tmpQuat = (0, 0, 0, 0),
         target = Some \<lparr>rotation = (0, 0, 0, 1), position = (0, 0, 0), heldTool = Some 5\<rparr>,
         useLog = [(5, OtherCommand 0)]\<rparr>)
     = [(5, PlayerMoveCommand (1, 2, 3, 4) (Some [7, 8, 9]))]"
  using executeCommand_use_once
    [of "\<lparr>tmpQuat = (0, 0, 0, 0),
          target = Some \<lparr>rotation = (0, 0, 0, 1), position = (0, 0, 0), heldTool = Some 5\<rparr>,
          useLog = [(5, OtherCommand 0)]\<rparr>"
        "\<lparr>rotation = (0, 0, 0, 1), position = (0, 0, 0), heldTool = Some 5\<rparr>"
        5 "(1, 2, 3, 4)" "[7, 8, 9]"]
  by simp

text \<open>
  C5: command execution never raises. For every command, a controller with no bound
  target returns the state it was given (no mutation, no error). With a bound target that
  holds no tool, no command leads to a tool invocation, and a move command still sets the
  target's orientation to the command's (the scratch quaternion holds it too), without
  error.
\<close>

theorem executeCommand_never_raises:
  "(\<exists>s'. executeCommand command s = Inr s')
   \<and> (target s = None \<longrightarrow> executeCommand command s = Inr s)
   \<and> (target s = Some e \<and> heldTool e = None \<longrightarrow>
        invocations s (executeCommand command s) = []
        \<and> executeCommand (PlayerMoveCommand q acts) s
            = Inr (s\<lparr>tmpQuat := q, target := Some (e\<lparr>rotation := q\<rparr>)\<rparr>))"
  by (auto simp add: invocations_def executeCommand_def Controller_executeCommand_def
      getTarget_def getHeldTool_def setRotation_def Let_def
      split: option.splits command.splits)

theorem executeCommand_never_raises_witness:
  "executeCommand (PlayerMoveCommand (1, 2, 3, 4) (Some [7]))
      \<lparr>tmpQuat = (0, 0, 0, 0), target = None, useLog = []\<rparr>
     = Inr \<lparr>tmpQuat = (0, 0, 0, 0), target = None, useLog = []\<rparr>
   \<and> invocations
      \<lparr>tmpQuat = (0, 0, 0, 0),
       target = Some \<lparr>rotation = (0, 0, 0, 1), position = (0, 0, 0), heldTool = None\<rparr>,
       useLog = []\<rparr>
      (executeCommand (PlayerMoveCommand (1, 2, 3, 4) (Some [7]))
        \<lparr>tmpQuat = (0, 0, 0, 0),
         target = Some \<lparr>rotation = (0, 0, 0, 1), position = (0, 0, 0), heldTool = None\<rparr>,
         useLog = []\<rparr>) = []
   \<and> executeCommand (PlayerMoveCommand (1, 2, 3, 4) (Some [7]))
      \<lparr>tmpQuat = (0, 0, 0, 0),
       target = Some \<lparr>rotation = (0, 0, 0, 1), position = (0, 0, 0), heldTool = None\<rparr>,
       useLog = []\<rparr>
     = Inr \<lparr>tmpQuat = (1, 2, 3, 4),
            target = Some \<lparr>rotation = (1, 2, 3, 4), position = (0, 0, 0), heldTool = None\<rparr>,
            useLog = []\<rparr>"
  using executeCommand_never_raises
    [of "PlayerMoveCommand (1, 2, 3, 4) (Some [7])"
        "\<lparr>tmpQuat = (0, 0, 0, 0), target = None, useLog = []\<rparr>"]
    executeCommand_never_raises
    [of "PlayerMoveCommand (1, 2, 3, 4) (Some [7])"
        "\<lparr>tmpQuat = (0, 0, 0, 0),
          target = Some \<lparr>rotation = (0, 0, 0, 1), position = (0, 0, 0), heldTool = None\<rparr>,
          useLog = []\<rparr>"
        "\<lparr>rotation = (0, 0, 0, 1), position = (0, 0, 0), heldTool = None\<rparr>"
        "(1, 2, 3, 4)" "Some [7]"]
  by (simp add: invocations_def)

text \<open>
  C7: command execution is deterministic. The function gives one result for one input;
  what can differ between two runs from fresh copies of one starting entity state is the
  static scratch quaternion, which the first run leaves behind for the second. For every
  starting state, every sequence of commands and any two contents of the scratch
  quaternion, the two runs end in the same entity state (or the same error).
\<close>

theorem executeCommands_deterministic:
  "map_sum id entityState (executeCommands cs (s\<lparr>tmpQuat := q1\<rparr>))
    = map_sum id entityState (executeCommands cs (s\<lparr>tmpQuat := q2\<rparr>))"
proof (induction cs arbitrary: s q1 q2)
  case Nil
  show ?case by (simp add: entityState_def)
next
  case (Cons c cs)
  obtain s' qa qb where
    a: "executeCommand c (s\<lparr>tmpQuat := q1\<rparr>) = Inr (s'\<lparr>tmpQuat := qa\<rparr>)" and
    b: "executeCommand c (s\<lparr>tmpQuat := q2\<rparr>) = Inr (s'\<lparr>tmpQuat := qb\<rparr>)"
    using executeCommand_scratch by blast
  show ?case
    using Cons.IH [where s = s' and ?q1.0 = qa and ?q2.0 = qb] by (simp add: a b)
qed

section \<open>Properties of ClientGame\<close>

lemmas connect_defs =
  connectToHost_def errback_def hasFired_def emit_def Let_def
  connectToRemoteHost_def connectToLocalHost_def gotoGameScreen_def enterGame_def
  andThen_def isInGame_def

lemmas setup_defs =
  ClientGame_def beginSetup_def setupSucceeded_def setupFailed_def showErrorPopup_def
  gotoMainMenuScreen_def exitGame_def

lemmas popup_defs =
  showSettingsPopup_def showHelpPopup_def prePopup_def postPopup_def playClick_def
  refreshSettings_def

lemmas example_defs =
  exampleEnv_def exampleGame_def exampleSettings_def exampleUri_def

subsection \<open>Setup\<close>

text \<open>
  C1: for every launch, the render-state setup (step 2) is called only if the deferred of
  the graphics-context setup (step 1) fired with success, and the call of step 1 comes
  first, right after the splash screen is shown. If step 1's deferred fires with a
  failure, step 2 is never called: the screens are cleared, the error popup for 'setup'
  is shown with the failure, and nothing else happens (no ticking, no menu, no
  connection; the in-game flag stays clear).
\<close>

theorem setup_step2_only_after_step1:
  "(RenderStateSetup \<in> set (trace (snd (ClientGame env host st)))
      \<longrightarrow> (\<exists>v. graphicsContext_setup env = Succeeded v))
   \<and> take 2 (trace (snd (ClientGame env host st)))
       = [SetScreen SplashScreen, GraphicsSetup False False]
   \<and> (graphicsContext_setup env = Failed arg \<longrightarrow>
        ClientGame env host st
          = (Normal,
             \<lparr>settings = st, launchOptions_host = host, inGame = False, isFullScreen = False,
              trace = [SetScreen SplashScreen, GraphicsSetup False False, PopAllScreens,
                       ShowError ''setup'' ''Unable to create the graphics context''
                         (or_null arg)]\<rparr>))"
  by (auto simp add: setup_defs connect_defs split: option.splits outcome.splits)

theorem setup_step2_only_after_step1_witness:
  "RenderStateSetup
     \<notin> set (trace (snd (ClientGame
          (exampleEnv\<lparr>graphicsContext_setup := Failed (JStr ''no webgl'')\<rparr>)
          (Some ''ws://host.example:80'') exampleSettings)))
   \<and> ClientGame (exampleEnv\<lparr>graphicsContext_setup := Failed (JStr ''no webgl'')\<rparr>)
        (Some ''ws://host.example:80'') exampleSettings
      = (Normal,
         \<lparr>settings = exampleSettings, launchOptions_host = Some ''ws://host.example:80'',
          inGame = False, isFullScreen = False,
          trace = [SetScreen SplashScreen, GraphicsSetup False False, PopAllScreens,
                   ShowError ''setup'' ''Unable to create the graphics context''
                     (JStr ''no webgl'')]\<rparr>)"
  using setup_step2_only_after_step1
    [of "exampleEnv\<lparr>graphicsContext_setup := Failed (JStr ''no webgl'')\<rparr>"
        "Some ''ws://host.example:80''" exampleSettings "JStr ''no webgl''"]
  by (simp add: exampleEnv_def or_null_def)

text \<open>A failure of step 2 is reported the same way, under its own message.\<close>

lemma setup_step2_failure:
  assumes "graphicsContext_setup env = Succeeded v" and "renderState_setup env = Failed arg"
  shows "ClientGame env host st
          = (Normal,
             \<lparr>settings = st, launchOptions_host = host, inGame = False, isFullScreen = False,
              trace = [SetScreen SplashScreen, GraphicsSetup False False, RenderStateSetup,
                       PopAllScreens,
                       ShowError ''setup'' ''Unable to setup graphics resources''
                         (or_null arg)]\<rparr>)"
  using assms by (simp add: setup_defs emit_def)

subsection \<open>The in-game flag\<close>

text \<open>
  C9: the flag that \<^verbatim>\<open>isInGame()\<close> returns is left as it was by toggleFullscreen, by
  prePopup_ and by postPopup_, whatever its value.
\<close>

theorem isInGame_frame:
  "isInGame (toggleFullscreen env g) = isInGame g
   \<and> isInGame (prePopup g) = isInGame g
   \<and> isInGame (postPopup g) = isInGame g"
  by (simp add: isInGame_def toggleFullscreen_def prePopup_def postPopup_def playClick_def
      emit_def Let_def)

text \<open>The three popups themselves leave it too.\<close>

lemma isInGame_popups:
  "isInGame (showHelpPopup env g) = isInGame g
   \<and> isInGame (snd (showSettingsPopup env g)) = isInGame g
   \<and> isInGame (showErrorPopup location message opt_arg g) = isInGame g"
  by (simp add: isInGame_def popup_defs showErrorPopup_def emit_def Let_def
      split: outcome.splits option.splits)

subsection \<open>connectToHost: validation\<close>

text \<open>
  C3 says that for every address whose scheme, host or port is empty, connectToHost fails
  with the InvalidAddress error and invokes no connector. In the concrete environment the
  address 'ws://host.example' names no port: the parser reports the port as \<^verbatim>\<open>null\<close>,
  the loose test \<^verbatim>\<open>uri.getPort() != ''\<close> of line 542 holds for it, and the address is
  taken as valid. No InvalidAddress error is fired; the call throws the ReferenceError of
  line 552, and on a page where the identifier of that line does resolve, the remote
  connector is entered, the network is called and the game screen is set. At 'ws://',
  where the host is empty, the connect deferred is fired with InvalidAddress, but the
  call then throws the same ReferenceError before any callback is added: the error is
  never handed on and the call ends by the throw.
\<close>

theorem connectToHost_missing_port_accepted:
  "connectToHost exampleEnv ''ws://host.example'' exampleGame
     = (Throw (ReferenceError ''settings''),
        exampleGame\<lparr>trace := [ShowConnecting ''ws://host.example'']\<rparr>)
   \<and> connectToHost (exampleEnv\<lparr>global_settings := Some exampleSettings\<rparr>)
        ''ws://host.example'' exampleGame
     = (Normal,
        exampleGame\<lparr>inGame := True,
          trace := [ShowConnecting ''ws://host.example'',
                    ConnectToRemoteHost ''ws://host.example'',
                    NetConnect ''ws://host.example'' AuthToken \<lparr>displayName = ''player''\<rparr>,
                    LogWrite ''Connection established to ws://host.example'' None,
                    DialogCancel,
                    SetScreen (GameScreen 1)]\<rparr>)
   \<and> connectToHost exampleEnv ''ws://'' exampleGame
     = (Throw (ReferenceError ''settings''),
        exampleGame\<lparr>trace := [ShowConnecting ''ws://'', Errback (InvalidAddress ''ws://'')]\<rparr>)"
  by (simp add: connect_defs example_defs InvalidAddress_def)

text \<open>
  What the validation does achieve: when the scheme or the host is the empty string, or
  the port is loosely equal to it (the empty string, the number 0, \<^verbatim>\<open>false\<close>), the
  connect deferred is fired with InvalidAddress right after the dialog is shown and no
  connector is entered. The call completes normally, with the failure callback run on
  that error, only where the identifier of line 552 resolves.
\<close>

lemma connectToHost_invalid_address:
  assumes "getScheme (goog_Uri env address) = []
           \<or> getDomain (goog_Uri env address) = []
           \<or> \<not> neq_empty (getPort (goog_Uri env address))"
  shows "newEvents g (connectToHost env address g)
           = [ShowConnecting address, Errback (InvalidAddress address)]
             @ (case global_settings env of
                  None \<Rightarrow> []
                | Some st \<Rightarrow>
                    [LogWrite (''Error connecting to '' @ address) (Some (InvalidAddress address)),
                     DialogCancel,
                     ShowConnectionFailed (InvalidAddress address)])"
    and "filter isConnectorCall (newEvents g (connectToHost env address g)) = []"
    and "fst (connectToHost env address g)
           = (case global_settings env of
                None \<Rightarrow> Throw (ReferenceError ''settings'')
              | Some st \<Rightarrow> Normal)"
  using assms
  by (auto simp add: newEvents_def connect_defs split: option.splits)

text \<open>
  The comparison of the port is the loose \<^verbatim>\<open>!= ''\<close>. A port that the parser reports as
  \<^verbatim>\<open>null\<close> is not loosely equal to the empty string, so an address with such a port passes
  the validation.
\<close>

lemma connectToHost_null_port:
  assumes "global_settings env = Some gs"
    and "getScheme (goog_Uri env address) = ''ws''"
    and "getDomain (goog_Uri env address) \<noteq> []"
    and "getPort (goog_Uri env address) = JNull"
  shows "filter isConnectorCall (newEvents g (connectToHost env address g))
           = [ConnectToRemoteHost (toString (goog_Uri env address)),
              NetConnect (toString (goog_Uri env address)) AuthToken
                \<lparr>displayName = sanitizeDisplayName env (userName gs)\<rparr>]"
  using assms
  by (auto simp add: newEvents_def connect_defs split: option.splits outcome.splits)

subsection \<open>connectToHost: the free identifier of line 552\<close>

text \<open>
  C10: every call of connectToHost, whatever the address, evaluates the free identifier
  \<^verbatim>\<open>settings\<close> of line 552. With no global of that name the call throws a ReferenceError
  there, for every address and every game instance. And the instance's own settings
  (\<^verbatim>\<open>this.settings\<close>) are never read: replacing them changes nothing of what the call
  does, so the display name is never derived from them.
\<close>

theorem connectToHost_reads_global_settings:
  "fst (connectToHost (env\<lparr>global_settings := None\<rparr>) address g)
     = Throw (ReferenceError ''settings'')
   \<and> connectToHost env address (g\<lparr>settings := st\<rparr>)
       = (fst (connectToHost env address g),
          (snd (connectToHost env address g))\<lparr>settings := st\<rparr>)"
  by (simp add: connect_defs split: option.splits outcome.splits)

subsection \<open>connectToHost: dispatch\<close>

text \<open>
  C4 says that a valid address with scheme "ws" dispatches the remote connector, one with
  scheme "local" the local connector, and any other scheme produces the UnsupportedScheme
  failure. In the concrete environment, where no global \<^verbatim>\<open>settings\<close> exists, the call
  throws at line 552 for each of the three schemes: the only call made is the one that
  shows the connecting dialog, and the switch of lines 556 to 568 is not reached.
\<close>

theorem connectToHost_dispatch_unreached:
  "connectToHost exampleEnv ''ws://host.example:80'' exampleGame
     = (Throw (ReferenceError ''settings''),
        exampleGame\<lparr>trace := [ShowConnecting ''ws://host.example:80'']\<rparr>)
   \<and> connectToHost exampleEnv ''local://blk:1'' exampleGame
     = (Throw (ReferenceError ''settings''),
        exampleGame\<lparr>trace := [ShowConnecting ''local://blk:1'']\<rparr>)
   \<and> connectToHost exampleEnv ''ftp://host.example:21'' exampleGame
     = (Throw (ReferenceError ''settings''),
        exampleGame\<lparr>trace := [ShowConnecting ''ftp://host.example:21'']\<rparr>)"
  by (simp add: connect_defs example_defs)

text \<open>
  Where the identifier does resolve, the switch dispatches as C4 says: "ws" enters the
  remote connector and calls the network, "local" enters the local connector, and any
  other scheme fires the deferred with UnsupportedScheme and enters neither.
\<close>

lemma connectToHost_dispatch_bound:
  assumes "global_settings env = Some gs"
    and "getScheme (goog_Uri env address) \<noteq> []"
    and "getDomain (goog_Uri env address) \<noteq> []"
    and "neq_empty (getPort (goog_Uri env address))"
  shows "filter isConnectorCall (newEvents g (connectToHost env address g))
           = (if getScheme (goog_Uri env address) = ''ws'' then
                [ConnectToRemoteHost (toString (goog_Uri env address)),
                 NetConnect (toString (goog_Uri env address)) AuthToken
                   \<lparr>displayName = sanitizeDisplayName env (userName gs)\<rparr>]
              else if getScheme (goog_Uri env address) = ''local'' then
                [ConnectToLocalHost (toString (goog_Uri env address))]
              else [])"
    and "getScheme (goog_Uri env address) \<noteq> ''ws''
         \<Longrightarrow> getScheme (goog_Uri env address) \<noteq> ''local''
         \<Longrightarrow> newEvents g (connectToHost env address g)
             = [ShowConnecting address,
                Errback (UnsupportedScheme (getScheme (goog_Uri env address))),
                LogWrite (''Error connecting to '' @ address)
                  (Some (UnsupportedScheme (getScheme (goog_Uri env address)))),
                DialogCancel,
                ShowConnectionFailed (UnsupportedScheme (getScheme (goog_Uri env address)))]"
  using assms
  by (auto simp add: newEvents_def connect_defs split: option.splits outcome.splits)

subsection \<open>connectToHost: the connecting dialog\<close>

text \<open>
  C6 says that on either outcome of the connector the connecting dialog is canceled
  exactly once, before the transition that follows. In the concrete environment the call
  throws at line 552, before the connector is invoked and before the two callbacks of
  lines 571 to 590, which hold the only calls of \<^verbatim>\<open>dialogDeferred.cancel()\<close>, are added:
  whether the network would accept or refuse the connection, the dialog is canceled zero
  times. The same holds where the connect deferred has already failed on the address.
\<close>

theorem connectToHost_indicator_never_canceled:
  "count_list (trace (snd (connectToHost exampleEnv ''ws://host.example:80'' exampleGame)))
      DialogCancel = 0
   \<and> count_list (trace (snd (connectToHost exampleEnv ''ws://'' exampleGame))) DialogCancel = 0
   \<and> count_list
       (trace (snd (connectToHost
          (exampleEnv\<lparr>gf_net_connect := (\<lambda>e a u. Failed (JStr ''refused''))\<rparr>)
          ''ws://host.example:80'' exampleGame)))
       DialogCancel = 0
   \<and> fst (connectToHost exampleEnv ''ws://host.example:80'' exampleGame)
       = Throw (ReferenceError ''settings'')"
  by (simp add: connect_defs example_defs)

text \<open>
  Where the identifier does resolve, both callbacks cancel the dialog once, before the
  game screen is set or the connection-failed error is shown.
\<close>

lemma connectToHost_indicator_bound:
  assumes "global_settings env = Some gs"
    and "getScheme (goog_Uri env address) = ''ws''"
    and "getDomain (goog_Uri env address) \<noteq> []"
    and "neq_empty (getPort (goog_Uri env address))"
  shows "gf_net_connect env (toString (goog_Uri env address)) AuthToken
           \<lparr>displayName = sanitizeDisplayName env (userName gs)\<rparr> = Succeeded sess
         \<Longrightarrow> \<not> inGame g
         \<Longrightarrow> newEvents g (connectToHost env address g)
             = [ShowConnecting address,
                ConnectToRemoteHost (toString (goog_Uri env address)),
                NetConnect (toString (goog_Uri env address)) AuthToken
                  \<lparr>displayName = sanitizeDisplayName env (userName gs)\<rparr>,
                LogWrite (''Connection established to '' @ address) None,
                DialogCancel,
                SetScreen (GameScreen sess)]
             \<and> inGame (snd (connectToHost env address g))"
    and "gf_net_connect env (toString (goog_Uri env address)) AuthToken
           \<lparr>displayName = sanitizeDisplayName env (userName gs)\<rparr> = Failed arg
         \<Longrightarrow> newEvents g (connectToHost env address g)
             = [ShowConnecting address,
                ConnectToRemoteHost (toString (goog_Uri env address)),
                NetConnect (toString (goog_Uri env address)) AuthToken
                  \<lparr>displayName = sanitizeDisplayName env (userName gs)\<rparr>,
                LogWrite (''Error connecting to '' @ address) (Some arg),
                DialogCancel,
                ShowConnectionFailed arg]"
  using assms
  by (auto simp add: newEvents_def connect_defs split: option.splits outcome.splits)

subsection \<open>The settings popup\<close>

text \<open>
  C8 says that when the settings dialog completes, the settings are re-applied exactly
  when its result is 'save', and the post-popup logic runs either way. In the concrete
  environment the dialog completes with 'save' and no global \<^verbatim>\<open>buttonId\<close> exists: the
  callback throws on its first line, after the pre-popup click and the push of the
  screen, and neither refreshSettings_ nor postPopup_ runs. With a global \<^verbatim>\<open>buttonId\<close>
  that holds 'save', a dialog closed with 'cancel' re-applies the settings all the same.
\<close>

theorem showSettingsPopup_save_throws:
  "showSettingsPopup exampleEnv exampleGame
     = (Throw (ReferenceError ''buttonId''),
        exampleGame\<lparr>trace := [PlayAmbient ''click'', PushScreen SettingsScreen]\<rparr>)
   \<and> showSettingsPopup
        (exampleEnv\<lparr>global_buttonId := Some (JStr ''save''),
                     settingsScreen_deferred := Succeeded (JStr ''cancel'')\<rparr>)
        exampleGame
     = (Normal,
        exampleGame\<lparr>trace := [PlayAmbient ''click'', PushScreen SettingsScreen,
                               MouseSetSensitivity 1, MouseSetLockOnFocus True, MouseUnlock,
                               MusicSetMuted False, PlayAmbient ''click'']\<rparr>)"
  by (simp add: popup_defs isInGame_def emit_def example_defs)

text \<open>The value the dialog completes with is never read.\<close>

lemma showSettingsPopup_ignores_result:
  "showSettingsPopup (env\<lparr>settingsScreen_deferred := Succeeded v1\<rparr>) g
     = showSettingsPopup (env\<lparr>settingsScreen_deferred := Succeeded v2\<rparr>) g"
  by (simp add: showSettingsPopup_def)

lemma showSettingsPopup_unbound:
  "global_buttonId env = None \<Longrightarrow> settingsScreen_deferred env = Succeeded v
   \<Longrightarrow> showSettingsPopup env g
        = (Throw (ReferenceError ''buttonId''), emit (PushScreen SettingsScreen) (prePopup g))"
  by (simp add: showSettingsPopup_def)

end
